theory Spec2Isabelle
  imports Main "HOL-Library.Char_ord" "HOL-Library.List_Lexorder"
begin

section \<open>Data model\<close>

text \<open>
  The chart is built from a JSON array of flat objects. One object is held as the list of
  its own properties (of distinct names) in the order \<open>Object.keys\<close> enumerates them.
  Every use the program makes of a cell (as a grouping key, as an element of a composite
  key, as the argument of \<open>parseInt\<close>) first converts it with JavaScript's ToString, so
  a cell is held as the string ToString gives for it; strings are sequences of 8-bit code
  units. A column that an object lacks reads as \<open>undefined\<close>. Cells holding \<open>null\<close>, and
  column names that are members of \<open>Object.prototype\<close>, are outside the model.
\<close>

type_synonym datum = "(string \<times> string) list"

definition property :: "datum \<Rightarrow> string \<Rightarrow> string option" where
  \<comment> \<open>\<open>d[colName]\<close>; \<open>None\<close> is \<open>undefined\<close>\<close>
  "property d colName = map_of d colName"

definition keys :: "datum \<Rightarrow> string list" where
  \<comment> \<open>\<open>Object.keys(d)\<close>\<close>
  "keys d = map fst d"

definition ToString :: "string option \<Rightarrow> string" where
  "ToString v = (case v of None \<Rightarrow> ''undefined'' | Some s \<Rightarrow> s)"

fun join :: "string list \<Rightarrow> string" where
  \<comment> \<open>\<open>Array.prototype.join\<close> with the separator \<open>","\<close>\<close>
  "join [] = []"
| "join [x] = x"
| "join (x # y # ys) = x @ '','' @ join (y # ys)"

definition Array_toString :: "string option list \<Rightarrow> string" where
  \<comment> \<open>an array converted to a string: the elements joined by commas, \<open>undefined\<close> as the
     empty string\<close>
  "Array_toString a = join (map (\<lambda>v. case v of None \<Rightarrow> [] | Some s \<Rightarrow> s) a)"

text \<open>
  A JavaScript number as far as the program computes with it: \<open>NaN\<close> or an integer.
  Integers are unbounded here: rounding above \<open>2 ^ 53\<close> and the infinities are not
  modelled.
\<close>

datatype number = NaN | Num int

record 'v obj =
  key :: string
  "values" :: 'v

text \<open>
  An Aggregate Entry is an \<open>int obj\<close>, a group-column node an \<open>int obj list obj\<close>, the root
  of the hierarchy an \<open>int obj list obj list obj\<close>.
\<close>

record styles =
  sort_dir :: int  \<comment> \<open>\<open>styles.sort\<close>\<close>
  rollupColName :: string
  groupColNames :: "string list"
  groupColNamesAllExcept :: "string list"

datatype colName = ColName string | ColNames "string list"

datatype error = TypeError


section \<open>Library functions the program calls\<close>

subsection \<open>\<open>parseInt\<close> with one argument\<close>

definition isWhiteSpace :: "char \<Rightarrow> bool" where
  "isWhiteSpace c = (of_char c \<in> {9, 10, 11, 12, 13, 32, 160 :: nat})"

definition digitValue :: "char \<Rightarrow> nat option" where
  "digitValue c =
     (let n = of_char c :: nat
      in if 48 \<le> n \<and> n \<le> 57 then Some (n - 48)
         else if 97 \<le> n \<and> n \<le> 122 then Some (n - 87)
         else if 65 \<le> n \<and> n \<le> 90 then Some (n - 55)
         else None)"

fun digits :: "nat \<Rightarrow> string \<Rightarrow> nat list" where
  \<comment> \<open>the values of the longest prefix of radix-\<open>R\<close> digits\<close>
  "digits R [] = []"
| "digits R (c # cs) =
     (case digitValue c of
        None \<Rightarrow> []
      | Some v \<Rightarrow> if v < R then v # digits R cs else [])"

definition parseInt :: "string \<Rightarrow> number" where
  "parseInt inputString =
     (let S = dropWhile isWhiteSpace inputString;
          sign = (if take 1 S = ''-'' then - 1 else 1 :: int);
          S = (if take 1 S = ''+'' \<or> take 1 S = ''-'' then drop 1 S else S);
          hex = (take 2 S = ''0x'' \<or> take 2 S = ''0X'');
          R = (if hex then 16 else 10);
          S = (if hex then drop 2 S else S);
          Z = digits R S
      in if Z = [] then NaN
         else Num (sign * int (fold (\<lambda>v acc. acc * R + v) Z 0)))"

subsection \<open>\<open>d3.sum\<close> with an accessor\<close>

text \<open>
  \<open>d3.sum(array, f)\<close> starts from \<open>0\<close> and adds \<open>f(x)\<close> for each element \<open>x\<close> in turn,
  skipping every \<open>f(x)\<close> that is \<open>NaN\<close> (d3 API: "ignores invalid values such as NaN and
  undefined").
\<close>

definition d3_sum :: "'a list \<Rightarrow> ('a \<Rightarrow> number) \<Rightarrow> int" where
  "d3_sum array f =
     fold (\<lambda>x s. case f x of NaN \<Rightarrow> s | Num a \<Rightarrow> s + a) array 0"

subsection \<open>\<open>d3.nest\<close> with one key function and a rollup\<close>

text \<open>
  \<open>d3.nest().key(k).rollup(r).entries(array)\<close> walks the array once, filing each element
  under the string its key converts to: a key seen before gets the element appended to its
  group, a new key opens a group after the existing ones. It then returns one entry per
  group, in the order the groups were opened, holding the key and the rollup of the group.
  (The order of the entries is the order in which d3's map enumerates its keys. A release
  of d3 that keeps the keys as plain property names leaves that order to the JavaScript
  engine, which may enumerate keys that are array indices, such as \<open>"10"\<close>, before the
  others; that is not modelled. The statements below that name an order name the order
  \<open>aggregateByCol\<close> returns, or concern keys that are no array indices.)
\<close>

fun d3_map_push :: "string \<Rightarrow> 'a \<Rightarrow> (string \<times> 'a list) list \<Rightarrow> (string \<times> 'a list) list" where
  "d3_map_push k x [] = [(k, [x])]"
| "d3_map_push k x ((k', xs) # m) =
     (if k' = k then (k', xs @ [x]) # m else (k', xs) # d3_map_push k x m)"

definition nest_map :: "('a \<Rightarrow> string) \<Rightarrow> 'a list \<Rightarrow> (string \<times> 'a list) list" where
  "nest_map keyf array = fold (\<lambda>object m. d3_map_push (keyf object) object m) array []"

definition nest_entries :: "('a \<Rightarrow> string) \<Rightarrow> ('a list \<Rightarrow> 'v) \<Rightarrow> 'a list \<Rightarrow> 'v obj list" where
  "nest_entries keyf rollup array =
     map (\<lambda>(k, leaves). \<lparr>key = k, values = rollup leaves\<rparr>) (nest_map keyf array)"


section \<open>The aggregator\<close>

fun nest_key :: "colName \<Rightarrow> datum \<Rightarrow> string" where
  \<comment> \<open>the key function of \<open>aggregateByCol\<close>, converted to a string as \<open>d3.nest\<close> does\<close>
  "nest_key (ColName c) d = ToString (property d c)"
| "nest_key (ColNames cs) d = Array_toString (map (\<lambda>f. property d f) cs)"

definition metric :: "string \<Rightarrow> datum \<Rightarrow> number" where
  \<comment> \<open>the accessor given to \<open>d3.sum\<close>: \<open>parseInt(d[rollupColName])\<close>\<close>
  "metric metricCol d = parseInt (ToString (property d metricCol))"

definition rollup :: "string \<Rightarrow> datum list \<Rightarrow> int" where
  "rollup metricCol leaves =
     (if metricCol = [] then int (length leaves) else d3_sum leaves (metric metricCol))"

definition aggregateByCol :: "colName \<Rightarrow> datum list \<Rightarrow> string \<Rightarrow> int obj list" where
  "aggregateByCol colName data metricCol =
     nest_entries (nest_key colName) (rollup metricCol) data"


section \<open>Built-in array and string operations\<close>

fun indexOf :: "'a list \<Rightarrow> 'a \<Rightarrow> int" where
  \<comment> \<open>\<open>Array.prototype.indexOf\<close>: the first index holding the element, \<open>-1\<close> when there is none\<close>
  "indexOf [] x = - 1"
| "indexOf (y # ys) x =
     (if y = x then 0 else (let i = indexOf ys x in if i < 0 then - 1 else i + 1))"

definition splice1 :: "'a list \<Rightarrow> int \<Rightarrow> 'a list" where
  \<comment> \<open>the array after \<open>a.splice(start, 1)\<close>: a negative \<open>start\<close> counts from the end\<close>
  "splice1 a start =
     (let len = int (length a);
          actualStart = (if start < 0 then max (len + start) 0 else min start len)
      in take (nat actualStart) a @ drop (nat actualStart + 1) a)"

text \<open>
  \<open>Array.prototype.sort(comparefn)\<close> is stable (ECMAScript 2019); \<open>comparefn(a, b) > 0\<close>
  puts \<open>b\<close> first. The comparators of \<open>sortBy\<close> compare strings or integers and are
  consistent, so the result is determined: it is the one that inserting the elements from
  the right, each before the first element it does not follow, produces.
\<close>

fun sort_insert :: "('a \<Rightarrow> 'a \<Rightarrow> int) \<Rightarrow> 'a \<Rightarrow> 'a list \<Rightarrow> 'a list" where
  "sort_insert comparefn x [] = [x]"
| "sort_insert comparefn x (y # ys) =
     (if comparefn x y \<le> 0 then x # y # ys else y # sort_insert comparefn x ys)"

definition Array_sort :: "('a \<Rightarrow> 'a \<Rightarrow> int) \<Rightarrow> 'a list \<Rightarrow> 'a list" where
  "Array_sort comparefn a = foldr (sort_insert comparefn) a []"

fun split_comma :: "string \<Rightarrow> string list" where
  \<comment> \<open>\<open>s.split(",")\<close>\<close>
  "split_comma [] = [[]]"
| "split_comma (c # cs) =
     (if c = CHR '','' then [] # split_comma cs
      else (case split_comma cs of [] \<Rightarrow> [[c]] | w # ws \<Rightarrow> (c # w) # ws))"

definition at :: "'a list \<Rightarrow> nat \<Rightarrow> 'a option" where
  \<comment> \<open>\<open>a[i]\<close>, \<open>undefined\<close> past the end\<close>
  "at a i = (if i < length a then Some (a ! i) else None)"

definition copyObj :: "'a \<Rightarrow> 'a" where
  \<comment> \<open>\<open>JSON.parse(JSON.stringify(obj))\<close>: on objects and arrays of strings and integers, an
     equal structure\<close>
  "copyObj obj = obj"


section \<open>Group and pair derivation\<close>

definition getGroups :: "styles \<Rightarrow> datum list \<Rightarrow> error + string list option" where
  \<comment> \<open>\<open>Inr None\<close>: neither branch is taken and the function returns \<open>undefined\<close>;
     \<open>Inl TypeError\<close>: \<open>Object.keys(data[0])\<close> on an empty dataset\<close>
  "getGroups styles data =
     (if length (groupColNames styles) > 0 then Inr (Some (groupColNames styles))
      else if length (groupColNamesAllExcept styles) > 0 then
        (case data of
           [] \<Rightarrow> Inl TypeError
         | d0 # _ \<Rightarrow>
             Inr (Some (fold (\<lambda>col groups. splice1 groups (indexOf groups col))
                          (groupColNamesAllExcept styles) (keys d0))))
      else Inr None)"

definition getGroupPairs :: "styles \<Rightarrow> datum list \<Rightarrow> error + string list list" where
  \<comment> \<open>\<open>groups.length\<close> of \<open>undefined\<close> is a TypeError\<close>
  "getGroupPairs styles data =
     (case getGroups styles data of
        Inl e \<Rightarrow> Inl e
      | Inr None \<Rightarrow> Inl TypeError
      | Inr (Some groups) \<Rightarrow>
          Inr (concat (map (\<lambda>i. map (\<lambda>j. [groups ! i, groups ! j]) [i + 1 ..< length groups])
                        [0 ..< length groups - 1])))"

definition isInGroupColNames :: "styles \<Rightarrow> string \<Rightarrow> bool" where
  \<comment> \<open>the second test, \<open>styles.groupColNamesAllExcept\<close>, holds of every array\<close>
  "isInGroupColNames styles col =
     (if length (groupColNames styles) \<ge> 1 then indexOf (groupColNames styles) col \<ge> 0
      else indexOf (groupColNamesAllExcept styles) col < 0)"


section \<open>Hierarchy and links\<close>

definition sortBy :: "styles \<Rightarrow> ('a \<Rightarrow> 'k::linorder) \<Rightarrow> 'a \<Rightarrow> 'a \<Rightarrow> int" where
  \<comment> \<open>\<open>sortBy(key)\<close>, the property read by the function \<open>field\<close>\<close>
  "sortBy styles field a b =
     (if field b > field a then sort_dir styles
      else if field b = field a then 0
      else - sort_dir styles)"

definition rootValues :: "styles \<Rightarrow> datum list \<Rightarrow> string list \<Rightarrow> int obj list obj list" where
  \<comment> \<open>the array \<open>getNodes\<close> fills, one group-column node for each group in turn\<close>
  "rootValues styles data groups =
     map (\<lambda>e. \<lparr>key = e,
                 values = Array_sort (sortBy styles values)
                   (aggregateByCol (ColName e) data (rollupColName styles))\<rparr>)
       groups"

definition getNodes :: "styles \<Rightarrow> datum list \<Rightarrow> error + int obj list obj list obj" where
  \<comment> \<open>\<open>groups.forEach\<close> on \<open>undefined\<close> is a TypeError\<close>
  "getNodes styles data =
     (case getGroups styles data of
        Inl e \<Rightarrow> Inl e
      | Inr None \<Rightarrow> Inl TypeError
      | Inr (Some groups) \<Rightarrow>
          Inr \<lparr>key = [],
               values = copyObj (Array_sort (sortBy styles key) (rootValues styles data groups))\<rparr>)"

text \<open>
  \<open>cluster.nodes(root)\<close> returns the root and its descendants in pre-order, each with its
  \<open>parent\<close> and \<open>depth\<close> set. The children of a node are its \<open>values\<close> unless \<open>isInt\<close> holds
  of them (the accessor given to \<open>d3.layout.cluster\<close>): the root's are the group-column
  nodes, a group-column node's are its Aggregate Entries, and an Aggregate Entry, whose
  \<open>values\<close> are a number, has none. A node is held with its key, its \<open>values\<close> when they
  are a number, its depth and the key of its parent.
\<close>

definition isInt :: "int \<Rightarrow> bool" where
  \<comment> \<open>on a number: \<open>(a % 1) === 0\<close>\<close>
  "isInt a = (a mod 1 = 0)"

record node = "int option obj" +
  depth :: nat
  parent :: "string option"

definition leafNode :: "string \<Rightarrow> int obj \<Rightarrow> node" where
  "leafNode g l = \<lparr>key = key l, values = Some (values l), depth = 2, parent = Some g\<rparr>"

definition cluster_nodes :: "int obj list obj list obj \<Rightarrow> node list" where
  "cluster_nodes root =
     \<lparr>key = key root, values = None, depth = 0, parent = None\<rparr> #
     concat (map (\<lambda>g. \<lparr>key = key g, values = None, depth = 1, parent = Some (key root)\<rparr> #
                      map (leafNode (key g)) (values g))
               (values root))"

record link =
  source :: "node option"
  target :: "node option"
  "value" :: int

definition mapNameNode :: "node list \<Rightarrow> string \<Rightarrow> node option" where
  \<comment> \<open>the lookup \<open>getLinks\<close> fills: a later node replaces an earlier one of the same key;
     a key that no node has reads as \<open>undefined\<close> (the members of \<open>Object.prototype\<close> that
     an empty object inherits are outside the model)\<close>
  "mapNameNode nodes = fold (\<lambda>n m. m(key n \<mapsto> n)) nodes Map.empty"

definition linksByNames :: "styles \<Rightarrow> datum list \<Rightarrow> (string \<Rightarrow> node option) \<Rightarrow> string list \<Rightarrow> link list" where
  \<comment> \<open>the links one pair of group columns contributes\<close>
  "linksByNames styles data m pair =
     map (\<lambda>d. let namePair = split_comma (key d)
              in \<lparr>source = m (ToString (at namePair 0)),
                  target = m (ToString (at namePair 1)),
                  value = values d\<rparr>)
       (aggregateByCol (ColNames pair) data (rollupColName styles))"

definition getLinks :: "styles \<Rightarrow> datum list \<Rightarrow> node list \<Rightarrow> error + link list" where
  "getLinks styles data nodes =
     (case getGroupPairs styles data of
        Inl e \<Rightarrow> Inl e
      | Inr pairs \<Rightarrow> Inr (concat (map (linksByNames styles data (mapNameNode nodes)) pairs)))"


section \<open>Inputs and vocabulary of the statements\<close>

text \<open>
  The dataset of the specification's scenario, the configuration the program starts from
  (reduced to the options the data transformation reads), and that configuration with the
  include-list \<open>[A, B]\<close> and a chosen sort direction.
\<close>

definition scenario :: "datum list" where
  "scenario =
     [[(''A'', ''x''), (''B'', ''p'')],
      [(''A'', ''x''), (''B'', ''q'')],
      [(''A'', ''y''), (''B'', ''p'')]]"

definition defaults :: styles where
  "defaults = \<lparr>sort_dir = 1, rollupColName = [], groupColNames = [],
                groupColNamesAllExcept = [''salesAmount'']\<rparr>"

definition groupsAB :: "int \<Rightarrow> styles" where
  "groupsAB s = \<lparr>sort_dir = s, rollupColName = [], groupColNames = [''A'', ''B''],
                  groupColNamesAllExcept = [''salesAmount'']\<rparr>"

text \<open>
  The hierarchy of the scenario under a positive, a zero and a negative sort direction,
  and its links.
\<close>

definition scenarioNodes :: "int obj list obj list obj" where
  "scenarioNodes =
     \<lparr>key = [],
      values = [\<lparr>key = ''B'', values = [\<lparr>key = ''p'', values = 2\<rparr>, \<lparr>key = ''q'', values = 1\<rparr>]\<rparr>,
                \<lparr>key = ''A'', values = [\<lparr>key = ''x'', values = 2\<rparr>, \<lparr>key = ''y'', values = 1\<rparr>]\<rparr>]\<rparr>"

definition scenarioNodes0 :: "int obj list obj list obj" where
  "scenarioNodes0 =
     \<lparr>key = [],
      values = [\<lparr>key = ''A'', values = [\<lparr>key = ''x'', values = 2\<rparr>, \<lparr>key = ''y'', values = 1\<rparr>]\<rparr>,
                \<lparr>key = ''B'', values = [\<lparr>key = ''p'', values = 2\<rparr>, \<lparr>key = ''q'', values = 1\<rparr>]\<rparr>]\<rparr>"

definition scenarioNodesAsc :: "int obj list obj list obj" where
  "scenarioNodesAsc =
     \<lparr>key = [],
      values = [\<lparr>key = ''A'', values = [\<lparr>key = ''y'', values = 1\<rparr>, \<lparr>key = ''x'', values = 2\<rparr>]\<rparr>,
                \<lparr>key = ''B'', values = [\<lparr>key = ''q'', values = 1\<rparr>, \<lparr>key = ''p'', values = 2\<rparr>]\<rparr>]\<rparr>"

definition scenarioLinks :: "link list" where
  "scenarioLinks =
     [\<lparr>source = Some (leafNode ''A'' \<lparr>key = ''x'', values = 2\<rparr>),
       target = Some (leafNode ''B'' \<lparr>key = ''p'', values = 2\<rparr>), value = 1\<rparr>,
      \<lparr>source = Some (leafNode ''A'' \<lparr>key = ''x'', values = 2\<rparr>),
       target = Some (leafNode ''B'' \<lparr>key = ''q'', values = 1\<rparr>), value = 1\<rparr>,
      \<lparr>source = Some (leafNode ''A'' \<lparr>key = ''y'', values = 1\<rparr>),
       target = Some (leafNode ''B'' \<lparr>key = ''p'', values = 2\<rparr>), value = 1\<rparr>]"






section \<open>Grouping\<close>

lemma nest_map_Nil: "nest_map keyf [] = []"
  by (simp add: nest_map_def)

lemma nest_map_snoc:
  "nest_map keyf (xs @ [x]) = d3_map_push (keyf x) x (nest_map keyf xs)"
  by (simp add: nest_map_def)

lemma d3_map_push_sizes:
  "sum_list (map (\<lambda>(k, g). int (length g)) (d3_map_push k x m))
     = sum_list (map (\<lambda>(k, g). int (length g)) m) + 1"
  by (induction m) auto

lemma nest_map_sizes:
  "sum_list (map (\<lambda>(k, g). int (length g)) (nest_map keyf xs)) = int (length xs)"
  by (induction xs rule: rev_induct) (simp_all add: nest_map_Nil nest_map_snoc d3_map_push_sizes)

lemma count_entries:
  "map values (aggregateByCol colName data [])
     = map (\<lambda>(k, g). int (length g)) (nest_map (nest_key colName) data)"
  by (simp add: aggregateByCol_def nest_entries_def rollup_def case_prod_unfold)

lemma d3_map_push_keys:
  "map fst (d3_map_push k x m) = (if k \<in> set (map fst m) then map fst m else map fst m @ [k])"
  by (induction m) (force split: if_splits)+

lemma d3_map_push_lookup:
  "map_of (d3_map_push k x m) =
     (map_of m)(k \<mapsto> (case map_of m k of None \<Rightarrow> [x] | Some g \<Rightarrow> g @ [x]))"
  by (induction m) (auto simp: fun_eq_iff)


lemma nest_map_distinct: "distinct (map fst (nest_map keyf xs))"
  by (induction xs rule: rev_induct) (auto simp: nest_map_Nil nest_map_snoc d3_map_push_keys)

text \<open>The groups are opened in the order their keys are first seen.\<close>

lemma nest_map_first_seen:
  "map fst (nest_map keyf xs) = rev (remdups (rev (map keyf xs)))"
  by (induction xs rule: rev_induct) (simp_all add: nest_map_Nil nest_map_snoc d3_map_push_keys)

text \<open>The group filed under a key holds the elements with that key, in their order.\<close>

lemma nest_map_lookup:
  "map_of (nest_map keyf xs) k =
     (if k \<in> keyf ` set xs then Some (filter (\<lambda>x. keyf x = k) xs) else None)"
proof (induction xs rule: rev_induct)
  case Nil
  show ?case by (simp add: nest_map_Nil)
next
  case (snoc x xs)
  show ?case
  proof (cases "k = keyf x")
    case False
    then show ?thesis
      using snoc by (simp add: nest_map_snoc d3_map_push_lookup)
  next
    case True
    show ?thesis
    proof (cases "k \<in> keyf ` set xs")
      case True
      with snoc \<open>k = keyf x\<close> show ?thesis
        by (simp add: nest_map_snoc d3_map_push_lookup)
    next
      case False
      then have "\<forall>y \<in> set xs. keyf y \<noteq> k" by auto
      then have "filter (\<lambda>y. keyf y = k) xs = []" by (simp add: filter_empty_conv)
      with snoc False \<open>k = keyf x\<close> show ?thesis
        by (simp add: nest_map_snoc d3_map_push_lookup)
    qed
  qed
qed

lemma nest_map_group:
  assumes "(k, g) \<in> set (nest_map keyf xs)"
  shows "g = filter (\<lambda>x. keyf x = k) xs" and "k \<in> keyf ` set xs"
proof -
  have "map_of (nest_map keyf xs) k = Some g"
    using assms nest_map_distinct[of keyf xs] by simp
  then show "g = filter (\<lambda>x. keyf x = k) xs" and "k \<in> keyf ` set xs"
    by (auto simp: nest_map_lookup split: if_splits)
qed

lemma nest_map_group_nonempty:
  assumes "(k, g) \<in> set (nest_map keyf xs)"
  shows "g \<noteq> []"
proof -
  obtain x where "x \<in> set xs" "keyf x = k"
    using nest_map_group(2)[OF assms] by auto
  then have "x \<in> set (filter (\<lambda>x. keyf x = k) xs)" by simp
  then have "filter (\<lambda>x. keyf x = k) xs \<noteq> []" by (metis empty_iff empty_set)
  then show ?thesis using nest_map_group(1)[OF assms] by simp
qed

lemma aggregateByCol_map_key:
  "map key (aggregateByCol colName data metricCol) = map fst (nest_map (nest_key colName) data)"
  by (simp add: aggregateByCol_def nest_entries_def case_prod_unfold)




lemma aggregateByCol_first_seen:
  "map key (aggregateByCol colName data metricCol)
     = rev (remdups (rev (map (nest_key colName) data)))"
  by (simp only: aggregateByCol_map_key nest_map_first_seen)

lemma aggregateByCol_count_positive:
  assumes "e \<in> set (aggregateByCol colName data [])"
  shows "1 \<le> values e"
proof -
  obtain k g where kg: "(k, g) \<in> set (nest_map (nest_key colName) data)"
    and e: "e = \<lparr>key = k, values = rollup [] g\<rparr>"
    using assms by (auto simp: aggregateByCol_def nest_entries_def)
  have "g \<noteq> []" using nest_map_group_nonempty[OF kg] .
  then have "1 \<le> int (length g)" by (cases g) auto
  then show ?thesis by (simp add: e rollup_def)
qed


section \<open>The metric rollup\<close>





section \<open>Sorting\<close>

lemma Array_sort_Nil: "Array_sort c [] = []"
  by (simp add: Array_sort_def)

lemma Array_sort_Cons: "Array_sort c (x # xs) = sort_insert c x (Array_sort c xs)"
  by (simp add: Array_sort_def)

lemma set_sort_insert: "set (sort_insert c x ys) = insert x (set ys)"
  by (induction ys) auto

lemma set_Array_sort: "set (Array_sort c xs) = set xs"
  by (induction xs) (simp_all add: Array_sort_Nil Array_sort_Cons set_sort_insert)
















section \<open>The shape of the hierarchy\<close>

lemma getNodes_Inr:
  assumes "getNodes styles data = Inr h"
  obtains groups where "getGroups styles data = Inr (Some groups)"
    and "h = \<lparr>key = [], values = Array_sort (sortBy styles key) (rootValues styles data groups)\<rparr>"
  using assms by (auto simp: getNodes_def copyObj_def split: sum.splits option.splits)

lemma rootValues_member:
  assumes "g \<in> set (rootValues styles data groups)"
  shows "key g \<in> set groups"
    and "values g = Array_sort (sortBy styles values)
           (aggregateByCol (ColName (key g)) data (rollupColName styles))"
  using assms by (auto simp: rootValues_def)



lemma isInt_int: "isInt a"
  by (simp add: isInt_def)


section \<open>The scenario, evaluated\<close>

lemma scenario_A:
  "aggregateByCol (ColName ''A'') scenario []
     = [\<lparr>key = ''x'', values = 2\<rparr>, \<lparr>key = ''y'', values = 1\<rparr>]"
  by code_simp

lemma scenario_B:
  "aggregateByCol (ColName ''B'') scenario []
     = [\<lparr>key = ''p'', values = 2\<rparr>, \<lparr>key = ''q'', values = 1\<rparr>]"
  by code_simp

lemma scenario_AB:
  "aggregateByCol (ColNames [''A'', ''B'']) scenario []
     = [\<lparr>key = ''x,p'', values = 1\<rparr>, \<lparr>key = ''x,q'', values = 1\<rparr>, \<lparr>key = ''y,p'', values = 1\<rparr>]"
  by code_simp

lemma groupsAB_getGroups: "getGroups (groupsAB s) data = Inr (Some [''A'', ''B''])"
  by (simp add: getGroups_def groupsAB_def)


lemma groupsAB_count: "rollupColName (groupsAB s) = []"
  by (simp add: groupsAB_def)

lemma groupsAB_getNodes: "getNodes (groupsAB 1) scenario = Inr scenarioNodes"
  by code_simp



lemma groupsAB_getLinks:
  "getLinks (groupsAB 1) scenario (cluster_nodes scenarioNodes) = Inr scenarioLinks"
  by code_simp

lemma split_comma_scenario:
  "split_comma ''x,p'' = [''x'', ''p'']" "split_comma ''x,q'' = [''x'', ''q'']"
  "split_comma ''y,p'' = [''y'', ''p'']"
  by simp_all

lemma scenario_getLinks:
  assumes "getGroupPairs styles scenario = Inr [[''A'', ''B'']]" and "rollupColName styles = []"
    and "mapNameNode nodes ''x'' = Some (leafNode ''A'' \<lparr>key = ''x'', values = 2\<rparr>)"
    and "mapNameNode nodes ''y'' = Some (leafNode ''A'' \<lparr>key = ''y'', values = 1\<rparr>)"
    and "mapNameNode nodes ''p'' = Some (leafNode ''B'' \<lparr>key = ''p'', values = 2\<rparr>)"
    and "mapNameNode nodes ''q'' = Some (leafNode ''B'' \<lparr>key = ''q'', values = 1\<rparr>)"
  shows "getLinks styles scenario nodes = Inr scenarioLinks"
  using assms(3-6)
  by (simp add: getLinks_def assms(1,2) linksByNames_def scenario_AB split_comma_scenario
        at_def ToString_def scenarioLinks_def del: split_comma.simps)

lemma scenarioNodes_lookup:
  "mapNameNode (cluster_nodes scenarioNodes) ''x'' = Some (leafNode ''A'' \<lparr>key = ''x'', values = 2\<rparr>)"
  "mapNameNode (cluster_nodes scenarioNodes) ''y'' = Some (leafNode ''A'' \<lparr>key = ''y'', values = 1\<rparr>)"
  "mapNameNode (cluster_nodes scenarioNodes) ''p'' = Some (leafNode ''B'' \<lparr>key = ''p'', values = 2\<rparr>)"
  "mapNameNode (cluster_nodes scenarioNodes) ''q'' = Some (leafNode ''B'' \<lparr>key = ''q'', values = 1\<rparr>)"
  by code_simp+

lemma scenarioNodes0_lookup:
  "mapNameNode (cluster_nodes scenarioNodes0) ''x'' = Some (leafNode ''A'' \<lparr>key = ''x'', values = 2\<rparr>)"
  "mapNameNode (cluster_nodes scenarioNodes0) ''y'' = Some (leafNode ''A'' \<lparr>key = ''y'', values = 1\<rparr>)"
  "mapNameNode (cluster_nodes scenarioNodes0) ''p'' = Some (leafNode ''B'' \<lparr>key = ''p'', values = 2\<rparr>)"
  "mapNameNode (cluster_nodes scenarioNodes0) ''q'' = Some (leafNode ''B'' \<lparr>key = ''q'', values = 1\<rparr>)"
  by code_simp+

lemma scenarioNodesAsc_lookup:
  "mapNameNode (cluster_nodes scenarioNodesAsc) ''x'' = Some (leafNode ''A'' \<lparr>key = ''x'', values = 2\<rparr>)"
  "mapNameNode (cluster_nodes scenarioNodesAsc) ''y'' = Some (leafNode ''A'' \<lparr>key = ''y'', values = 1\<rparr>)"
  "mapNameNode (cluster_nodes scenarioNodesAsc) ''p'' = Some (leafNode ''B'' \<lparr>key = ''p'', values = 2\<rparr>)"
  "mapNameNode (cluster_nodes scenarioNodesAsc) ''q'' = Some (leafNode ''B'' \<lparr>key = ''q'', values = 1\<rparr>)"
  by code_simp+

lemma scenario_x_in_A: "\<lparr>key = ''x'', values = 2\<rparr> \<in> set (aggregateByCol (ColName ''A'') scenario [])"
  by (simp add: scenario_A)

lemma scenario_A_in_nodes:
  "\<lparr>key = ''A'', values = [\<lparr>key = ''x'', values = 2 :: int\<rparr>, \<lparr>key = ''y'', values = 1\<rparr>]\<rparr>
     \<in> set (values scenarioNodes)"
  by (simp add: scenarioNodes_def)





section \<open>The derivation of the groups, where it follows the rule\<close>

text \<open>
  With a non-empty include-list \<open>getGroups\<close> returns it as it is. With an empty one, and
  an exclude-list whose names are distinct and are all columns of the first record, it
  returns the columns of the first record without the excluded ones, in their order.
  \<open>isInGroupColNames\<close> follows the rule for every column, and in both cases agrees with
  membership in the groups.
\<close>

lemma indexOf_absent: "x \<notin> set xs \<Longrightarrow> indexOf xs x = - 1"
  by (induction xs) (auto simp: Let_def)

lemma indexOf_present: "x \<in> set xs \<Longrightarrow> 0 \<le> indexOf xs x \<and> indexOf xs x < int (length xs)"
  by (induction xs) (auto simp: Let_def)

lemma indexOf_nonneg_iff: "0 \<le> indexOf xs x \<longleftrightarrow> x \<in> set xs"
  by (cases "x \<in> set xs") (simp_all add: indexOf_absent indexOf_present)

lemma splice_present: "x \<in> set xs \<Longrightarrow> splice1 xs (indexOf xs x) = remove1 x xs"
proof (induction xs)
  case Nil
  then show ?case by simp
next
  case (Cons y ys)
  show ?case
  proof (cases "y = x")
    case True
    then show ?thesis by (simp add: splice1_def)
  next
    case False
    with Cons.prems have x: "x \<in> set ys" by simp
    from indexOf_present[OF x] have i: "0 \<le> indexOf ys x" "indexOf ys x < int (length ys)"
      by simp_all
    from Cons.IH[OF x] i have "take (nat (indexOf ys x)) ys @ drop (nat (indexOf ys x) + 1) ys = remove1 x ys"
      by (simp add: splice1_def Let_def min_def split: if_splits)
    with False i show ?thesis
      by (simp add: splice1_def Let_def min_def nat_add_distrib)
  qed
qed

lemma splice_absent_nonempty:
  "x \<notin> set xs \<Longrightarrow> xs \<noteq> [] \<Longrightarrow> splice1 xs (indexOf xs x) = butlast xs"
  by (simp add: indexOf_absent splice1_def Let_def butlast_conv_take max_def nat_diff_distrib)

lemma fold_splice_present:
  assumes "distinct ex" and "set ex \<subseteq> set ks" and "distinct ks"
  shows "fold (\<lambda>col groups. splice1 groups (indexOf groups col)) ex ks
           = filter (\<lambda>c. c \<notin> set ex) ks"
  using assms
proof (induction ex arbitrary: ks)
  case Nil
  then show ?case by simp
next
  case (Cons c ex)
  have c: "c \<in> set ks" using Cons.prems(2) by simp
  have "remove1 c ks = filter ((\<noteq>) c) ks"
    using Cons.prems(3) by (simp add: distinct_remove1_removeAll removeAll_filter_not_eq)
  also have "\<dots> = filter (\<lambda>k. k \<noteq> c) ks"
    by (rule filter_cong) auto
  finally have r: "remove1 c ks = filter (\<lambda>k. k \<noteq> c) ks" .
  have "fold (\<lambda>col groups. splice1 groups (indexOf groups col)) ex (remove1 c ks)
          = filter (\<lambda>k. k \<notin> set ex) (remove1 c ks)"
    using Cons.prems by (intro Cons.IH) auto
  then show ?case
    by (simp add: splice_present[OF c] r)
qed

lemma getGroups_include:
  "groupColNames styles \<noteq> [] \<Longrightarrow> getGroups styles data = Inr (Some (groupColNames styles))"
  by (simp add: getGroups_def)

lemma getGroups_exclude_present:
  assumes "groupColNames styles = []" and "groupColNamesAllExcept styles \<noteq> []"
    and "distinct (groupColNamesAllExcept styles)"
    and "set (groupColNamesAllExcept styles) \<subseteq> set (keys d0)" and "distinct (keys d0)"
  shows "getGroups styles (d0 # ds)
           = Inr (Some (filter (\<lambda>c. c \<notin> set (groupColNamesAllExcept styles)) (keys d0)))"
  by (simp add: getGroups_def assms(1,2) fold_splice_present[OF assms(3,4,5)])

lemma isInGroupColNames_rule:
  "isInGroupColNames styles col \<longleftrightarrow>
     (if groupColNames styles \<noteq> [] then col \<in> set (groupColNames styles)
      else col \<notin> set (groupColNamesAllExcept styles))"
  using indexOf_nonneg_iff[of "groupColNames styles" col]
    indexOf_nonneg_iff[of "groupColNamesAllExcept styles" col]
  by (cases "groupColNames styles") (auto simp: isInGroupColNames_def)

lemma isInGroupColNames_agrees_include:
  assumes "groupColNames styles \<noteq> []" and "getGroups styles data = Inr (Some groups)"
  shows "isInGroupColNames styles col \<longleftrightarrow> col \<in> set groups"
  using assms by (simp add: isInGroupColNames_rule getGroups_include)

lemma isInGroupColNames_agrees_exclude:
  assumes "groupColNames styles = []" and "groupColNamesAllExcept styles \<noteq> []"
    and "distinct (groupColNamesAllExcept styles)"
    and "set (groupColNamesAllExcept styles) \<subseteq> set (keys d0)" and "distinct (keys d0)"
    and "getGroups styles (d0 # ds) = Inr (Some groups)" and "col \<in> set (keys d0)"
  shows "isInGroupColNames styles col \<longleftrightarrow> col \<in> set groups"
  using assms(6,7) getGroups_exclude_present[OF assms(1-5), of ds]
  by (auto simp: isInGroupColNames_rule assms(1))


section \<open>Claims\<close>

subsection \<open>Count mode conserves the records\<close>

text \<open>
  C1. In count mode (empty metric column) the values of the Aggregate Entries that
  \<open>aggregateByCol\<close> returns add up to the number of records, for every dataset and for a
  single grouping column as well as for a list of columns.
\<close>

theorem aggregateByCol_count_total:
  "sum_list (map values (aggregateByCol colName data [])) = int (length data)"
  by (simp only: count_entries nest_map_sizes)




subsection \<open>Deriving the groups\<close>

text \<open>
  C3. The specification has \<open>getGroups\<close> leave the column list unchanged when a name of
  the exclude-list is not a column of the first record. The program removes a name with
  \<open>groups.splice(groups.indexOf(col), 1)\<close>; for an absent name \<open>indexOf\<close> gives \<open>-1\<close> and
  \<open>splice(-1, 1)\<close> removes the last column. Under the starting configuration, whose
  exclude-list is \<open>[salesAmount]\<close>, a record with the columns \<open>A\<close> and \<open>B\<close> yields the
  groups \<open>[A]\<close>, not \<open>[A, B]\<close>.
\<close>

theorem getGroups_absent_name:
  "keys [(''A'', ''x''), (''B'', ''p'')] = [''A'', ''B'']
   \<and> groupColNamesAllExcept defaults = [''salesAmount'']
   \<and> getGroups defaults [[(''A'', ''x''), (''B'', ''p'')]] = Inr (Some [''A''])"
  by code_simp

text \<open>
  C9. The specification has \<open>isInGroupColNames\<close> agree with membership in the groups
  \<open>getGroups\<close> returns, for the columns of the first record. Under the starting
  configuration and a record with the columns \<open>A\<close> and \<open>B\<close>, \<open>isInGroupColNames\<close> accepts
  \<open>B\<close> (it is not in the exclude-list) while \<open>getGroups\<close> returns \<open>[A]\<close>: the last column
  was removed in place of the absent \<open>salesAmount\<close>.
\<close>

theorem isInGroupColNames_disagrees:
  "isInGroupColNames defaults ''B''
   \<and> ''B'' \<in> set (keys [(''A'', ''x''), (''B'', ''p'')])
   \<and> getGroups defaults [[(''A'', ''x''), (''B'', ''p'')]] = Inr (Some [''A''])
   \<and> ''B'' \<notin> set [''A'']"
  by code_simp


subsection \<open>The metric rollup\<close>





subsection \<open>The order of the hierarchy\<close>




subsection \<open>Links and leaves\<close>

text \<open>
  C6. The specification has every link's source and target be leaves of the hierarchy.
  \<open>getLinks\<close> recovers the two names of a link by splitting the composite key of the
  aggregate at the commas, and looks each up by key alone. A value that contains a comma
  is split too: for one record with \<open>A = "a,b"\<close> and \<open>B = "p"\<close> and the groups \<open>[A, B]\<close>, the
  composite key \<open>a,b,p\<close> gives the names \<open>a\<close> and \<open>b\<close>; no node has either key, and the one
  link has neither source nor target, although the hierarchy holds the leaves \<open>a,b\<close> and
  \<open>p\<close>.
\<close>

theorem getLinks_comma_unresolved:
  "getNodes (groupsAB 1) [[(''A'', ''a,b''), (''B'', ''p'')]]
     = Inr \<lparr>key = [],
            values = [\<lparr>key = ''B'', values = [\<lparr>key = ''p'', values = 1\<rparr>]\<rparr>,
                      \<lparr>key = ''A'', values = [\<lparr>key = ''a,b'', values = 1\<rparr>]\<rparr>]\<rparr>
   \<and> getLinks (groupsAB 1) [[(''A'', ''a,b''), (''B'', ''p'')]]
        (cluster_nodes
           \<lparr>key = [],
            values = [\<lparr>key = ''B'', values = [\<lparr>key = ''p'', values = 1\<rparr>]\<rparr>,
                      \<lparr>key = ''A'', values = [\<lparr>key = ''a,b'', values = 1\<rparr>]\<rparr>]\<rparr>)
     = Inr [\<lparr>source = None, target = None, value = 1\<rparr>]"
  by code_simp



text \<open>
  C8. For the scenario's dataset, under every configuration in count mode whose derived
  groups are \<open>[A, B]\<close>: \<open>getNodes\<close> yields the group-column nodes \<open>A\<close> and \<open>B\<close>, the leaves
  \<open>x\<close> (2) and \<open>y\<close> (1) under \<open>A\<close> and \<open>p\<close> (2) and \<open>q\<close> (1) under \<open>B\<close>, in the order the sort
  direction gives them; and \<open>getLinks\<close> yields exactly the three links \<open>x\<close>-\<open>p\<close>, \<open>x\<close>-\<open>q\<close>
  and \<open>y\<close>-\<open>p\<close>, each of value 1, between those leaves.
\<close>

theorem scenario_nodes_links:
  assumes "getGroups styles scenario = Inr (Some [''A'', ''B''])" and "rollupColName styles = []"
  shows "\<exists>h. getNodes styles scenario = Inr h
           \<and> (map key (values h) = [''A'', ''B''] \<or> map key (values h) = [''B'', ''A''])
           \<and> (\<forall>g\<in>set (values h). key g = ''A'' \<longrightarrow>
                 values g = [\<lparr>key = ''x'', values = 2\<rparr>, \<lparr>key = ''y'', values = 1\<rparr>]
               \<or> values g = [\<lparr>key = ''y'', values = 1\<rparr>, \<lparr>key = ''x'', values = 2\<rparr>])
           \<and> (\<forall>g\<in>set (values h). key g = ''B'' \<longrightarrow>
                 values g = [\<lparr>key = ''p'', values = 2\<rparr>, \<lparr>key = ''q'', values = 1\<rparr>]
               \<or> values g = [\<lparr>key = ''q'', values = 1\<rparr>, \<lparr>key = ''p'', values = 2\<rparr>])
           \<and> getLinks styles scenario (cluster_nodes h) = Inr scenarioLinks"
proof -
  have pairs: "getGroupPairs styles scenario = Inr [[''A'', ''B'']]"
    by (simp add: getGroupPairs_def assms(1))
  have nodes: "getNodes styles scenario =
     Inr \<lparr>key = [], values = Array_sort (sortBy styles key)
        [\<lparr>key = ''A'', values = Array_sort (sortBy styles values)
            [\<lparr>key = ''x'', values = 2\<rparr>, \<lparr>key = ''y'', values = 1\<rparr>]\<rparr>,
         \<lparr>key = ''B'', values = Array_sort (sortBy styles values)
            [\<lparr>key = ''p'', values = 2\<rparr>, \<lparr>key = ''q'', values = 1\<rparr>]\<rparr>]\<rparr>"
    by (simp add: getNodes_def assms rootValues_def scenario_A scenario_B copyObj_def)
  consider (pos) "0 < sort_dir styles" | (zero) "sort_dir styles = 0" | (neg) "sort_dir styles < 0"
    by linarith
  then show ?thesis
  proof cases
    case pos
    then have "getNodes styles scenario = Inr scenarioNodes"
      by (simp add: nodes Array_sort_def sortBy_def scenarioNodes_def)
    moreover have "getLinks styles scenario (cluster_nodes scenarioNodes) = Inr scenarioLinks"
      by (rule scenario_getLinks[OF pairs assms(2) scenarioNodes_lookup])
    ultimately show ?thesis
      by (intro exI[of _ scenarioNodes]) (simp add: scenarioNodes_def)
  next
    case zero
    then have "getNodes styles scenario = Inr scenarioNodes0"
      by (simp add: nodes Array_sort_def sortBy_def scenarioNodes0_def)
    moreover have "getLinks styles scenario (cluster_nodes scenarioNodes0) = Inr scenarioLinks"
      by (rule scenario_getLinks[OF pairs assms(2) scenarioNodes0_lookup])
    ultimately show ?thesis
      by (intro exI[of _ scenarioNodes0]) (simp add: scenarioNodes0_def)
  next
    case neg
    then have "getNodes styles scenario = Inr scenarioNodesAsc"
      by (simp add: nodes Array_sort_def sortBy_def scenarioNodesAsc_def)
    moreover have "getLinks styles scenario (cluster_nodes scenarioNodesAsc) = Inr scenarioLinks"
      by (rule scenario_getLinks[OF pairs assms(2) scenarioNodesAsc_lookup])
    ultimately show ?thesis
      by (intro exI[of _ scenarioNodesAsc]) (simp add: scenarioNodesAsc_def)
  qed
qed

theorem scenario_nodes_links_witness:
  "getGroups (groupsAB 1) scenario = Inr (Some [''A'', ''B'']) \<and> rollupColName (groupsAB 1) = []
   \<and> getNodes (groupsAB 1) scenario = Inr scenarioNodes
   \<and> getLinks (groupsAB 1) scenario (cluster_nodes scenarioNodes) = Inr scenarioLinks"
proof -
  from scenario_nodes_links[OF groupsAB_getGroups[of 1 scenario] groupsAB_count[of 1]]
  obtain h where "getNodes (groupsAB 1) scenario = Inr h"
    and "getLinks (groupsAB 1) scenario (cluster_nodes h) = Inr scenarioLinks"
    by blast
  then show ?thesis
    by (simp add: groupsAB_getNodes groupsAB_getGroups groupsAB_count)
qed

text \<open>
  C10. In count mode every value \<open>aggregateByCol\<close> returns is an integer and at least 1
  (the size of a group, and no group is empty); so are the value of every leaf of the
  hierarchy and the value of every link. \<open>isInt\<close> is the test by which the layout tells a
  leaf, whose \<open>values\<close> are a number, from a node with children.
\<close>

theorem count_values_positive:
  assumes "rollupColName styles = []"
  shows "(\<forall>e\<in>set (aggregateByCol colName data []). 1 \<le> values e \<and> isInt (values e))
       \<and> (\<forall>h. getNodes styles data = Inr h \<longrightarrow>
             (\<forall>g\<in>set (values h). \<forall>l\<in>set (values g). 1 \<le> values l \<and> isInt (values l)))
       \<and> (\<forall>ls. getLinks styles data nodes = Inr ls \<longrightarrow>
             (\<forall>l\<in>set ls. 1 \<le> value l \<and> isInt (value l)))"
proof -
  have entries: "1 \<le> values e \<and> isInt (values e)"
    if "e \<in> set (aggregateByCol c data [])" for c e
    using aggregateByCol_count_positive[OF that] by (simp add: isInt_int)
  have nodes: "1 \<le> values l \<and> isInt (values l)"
    if "getNodes styles data = Inr h" and "g \<in> set (values h)" and "l \<in> set (values g)" for h g l
  proof -
    from that(1) obtain groups
      where h: "values h = Array_sort (sortBy styles key) (rootValues styles data groups)"
      by (auto elim!: getNodes_Inr)
    have "values g = Array_sort (sortBy styles values)
               (aggregateByCol (ColName (key g)) data (rollupColName styles))"
      using that(2) rootValues_member(2)[of g styles data groups] by (simp add: h set_Array_sort)
    with that(3) have "l \<in> set (aggregateByCol (ColName (key g)) data [])"
      by (simp add: set_Array_sort assms)
    then show ?thesis by (rule entries)
  qed
  have links: "1 \<le> value l \<and> isInt (value l)"
    if "getLinks styles data nodes = Inr ls" and "l \<in> set ls" for ls l
  proof -
    from that obtain pair where
      "l \<in> set (linksByNames styles data (mapNameNode nodes) pair)"
      by (auto simp: getLinks_def split: sum.splits)
    then obtain e where "e \<in> set (aggregateByCol (ColNames pair) data [])" and "value l = values e"
      by (auto simp: linksByNames_def Let_def assms)
    with entries show ?thesis by simp
  qed
  from entries nodes links show ?thesis by blast
qed

theorem count_values_positive_witness:
  "rollupColName (groupsAB 1) = []
   \<and> 1 \<le> values \<lparr>key = ''x'', values = 2 :: int\<rparr>
   \<and> isInt (values \<lparr>key = ''y'', values = 1 :: int\<rparr>)
   \<and> 1 \<le> value (hd scenarioLinks)"
proof -
  note t = count_values_positive[OF groupsAB_count[of 1],
      where colName = "ColName ''A''" and data = scenario and nodes = "cluster_nodes scenarioNodes"]
  from t scenario_x_in_A have 1: "1 \<le> values \<lparr>key = ''x'', values = 2 :: int\<rparr>"
    by blast
  have "\<lparr>key = ''y'', values = 1 :: int\<rparr>
          \<in> set (values \<lparr>key = ''A'', values = [\<lparr>key = ''x'', values = 2 :: int\<rparr>, \<lparr>key = ''y'', values = 1\<rparr>]\<rparr>)"
    by simp
  with t groupsAB_getNodes scenario_A_in_nodes
  have 2: "isInt (values \<lparr>key = ''y'', values = 1 :: int\<rparr>)"
    by blast
  have "hd scenarioLinks \<in> set scenarioLinks"
    by (simp add: scenarioLinks_def)
  with t groupsAB_getLinks have 3: "1 \<le> value (hd scenarioLinks)"
    by blast
  from 1 2 3 groupsAB_count show ?thesis by blast
qed

end
